theory Spec2Isabelle
  imports Main
begin

section \<open>Data model\<close>

text \<open>
  The records carry the attributes that the functions of
  \<^verbatim>\<open>server/paymentProviders/paypal/subscription.ts\<close> and
  \<^verbatim>\<open>server/lib/subscriptions.ts\<close> read or write. A nullable column is an
  \<open>option\<close>; amounts are integers in minor units; database keys are naturals
  (numeric keys) or strings (the provider's ids).
\<close>

record Collective =
  c_id :: nat
  c_name :: string
  c_slug :: string

text \<open>
  The kinds of a tier. The constants of \<^verbatim>\<open>constants/tiers\<close> are not under
  src; the four that \<^verbatim>\<open>getProductTypeAndCategory\<close> names are \<open>TICKET\<close>,
  \<open>PRODUCT\<close>, \<open>SERVICE\<close> and \<open>MEMBERSHIP\<close>, every other kind takes its
  default branch.
\<close>

datatype TierType = TIER | MEMBERSHIP | DONATION | TICKET | SERVICE | PRODUCT

record Tier =
  t_id :: nat
  t_CollectiveId :: nat
  t_type :: "TierType option"
  amountType :: string
  t_amount :: "int option"
  minimumAmount :: "int option"
  t_interval :: "string option"

record Order =
  o_id :: nat
  CollectiveId :: nat
  FromCollectiveId :: nat
  TierId :: "nat option"
  totalAmount :: int
  o_currency :: string
  o_interval :: "string option"
  o_quantity :: int
  SubscriptionId :: "nat option"
  PaymentMethodId :: "nat option"
  status :: string

text \<open>A Subscription row; its key is the index of the row in the table.\<close>

record Subscription =
  amount :: int
  currency :: string
  interval :: "string option"
  quantity :: int
  isActive :: bool
  isManagedExternally :: bool
  stripeSubscriptionId :: "string option"
  paypalSubscriptionId :: "string option"
  nextChargeDate :: "nat option"
  nextPeriodStart :: "nat option"
  chargeNumber :: int

record PaymentMethod =
  pm_id :: nat
  service :: string
  pm_type :: string
  token :: string
  name :: "string option"
  pm_CollectiveId :: nat

record PaypalProduct =
  p_id :: string
  p_CollectiveId :: nat
  p_TierId :: "nat option"

record PaypalPlan =
  pl_id :: string
  ProductId :: string
  pl_amount :: int
  pl_currency :: string
  pl_interval :: string

text \<open>
  The object that the provider returns, with the members the code reads:
  \<^verbatim>\<open>id\<close>, \<^verbatim>\<open>status\<close>, \<^verbatim>\<open>plan_id\<close> and
  \<^verbatim>\<open>subscriber.email_address\<close>.
\<close>

record paypal_json =
  j_id :: string
  j_status :: string
  plan_id :: string
  subscriber_email_address :: string

subsection \<open>Errors\<close>

text \<open>
  \<open>Error m\<close> is \<^verbatim>\<open>new Error(m)\<close>; \<open>ErrorWithRootException m e\<close> is an
  \<^verbatim>\<open>Error\<close> whose property \<^verbatim>\<open>rootException\<close> is \<open>e\<close>. The other
  constructors are what the collaborators raise: the gateway, the store, the
  language run time (a member read on \<^verbatim>\<open>undefined\<close>) and the
  permission check.
\<close>

datatype error =
    Error string
  | ErrorWithRootException string error
  | TypeError string
  | Unauthorized string
  | GatewayError string
  | StoreError string

subsection \<open>Effects: gateway calls and store writes\<close>

text \<open>
  A call of \<^verbatim>\<open>paypalRequest\<close> is identified by the resource it addresses and
  the arguments the caller chose; the acting host account is the one of the
  order's collective throughout.
\<close>

datatype request =
    CreateProduct string string "string option" string
  | CreatePlan string string int string
  | GetSubscription string
  | CancelSubscription string "string option"
  | ActivateSubscription string

text \<open>
  The values of an \<^verbatim>\<open>update\<close> call are a list of column assignments,
  applied from left to right.
\<close>

datatype subscription_field =
    Amount int
  | Interval "string option"
  | IsManagedExternally bool
  | StripeSubscriptionId "string option"
  | PaypalSubscriptionId "string option"

datatype order_field =
    TotalAmount int
  | OrderInterval "string option"
  | OrderTierId "nat option"
  | OrderPaymentMethodId "nat option"
  | OrderStatus string

datatype store_op =
    UpdateSubscription nat "subscription_field list"
  | UpdateOrder nat "order_field list"
  | UpdatePaymentMethodName nat string
  | CreateSubscription nat Subscription
  | CreatePlanOfProduct PaypalPlan
  | CreatePlanWithProduct PaypalPlan PaypalProduct

datatype event = Gateway request | Store store_op

text \<open>
  The world: the tables of the store and the log of every gateway call issued
  and every \<^verbatim>\<open>update\<close> or \<^verbatim>\<open>create\<close> call made on a model, oldest first.
\<close>

record world =
  orders :: "nat \<rightharpoonup> Order"
  subscriptions :: "nat \<rightharpoonup> Subscription"
  nextSubscriptionId :: nat
  paymentMethods :: "nat \<rightharpoonup> PaymentMethod"
  products :: "PaypalProduct list"
  plans :: "PaypalPlan list"
  log :: "event list"

text \<open>
  The collaborators the code cannot control: what the gateway answers to a
  request and whether the store rejects a write, both as functions of the
  history, and the clock read by \<^verbatim>\<open>new Date()\<close>.
\<close>

record env =
  gateway :: "event list \<Rightarrow> request \<Rightarrow> string + paypal_json"
  storeRejects :: "event list \<Rightarrow> store_op \<Rightarrow> bool"
  now :: nat

subsection \<open>Asynchronous computations\<close>

type_synonym 'a prog = "world \<Rightarrow> (error + 'a) \<times> world"

definition resolve :: "'a \<Rightarrow> 'a prog" where
  "resolve v st = (Inr v, st)"

definition reject :: "error \<Rightarrow> 'a prog" where
  "reject e st = (Inl e, st)"

definition await :: "'a prog \<Rightarrow> ('a \<Rightarrow> 'b prog) \<Rightarrow> 'b prog" where
  "await m f st = (case m st of (Inl e, st') \<Rightarrow> (Inl e, st') | (Inr v, st') \<Rightarrow> f v st')"

definition tryCatch :: "'a prog \<Rightarrow> (error \<Rightarrow> 'a prog) \<Rightarrow> 'a prog" where
  "tryCatch m h st = (case m st of (Inl e, st') \<Rightarrow> h e st' | (Inr v, st') \<Rightarrow> (Inr v, st'))"

definition paypalRequest :: "env \<Rightarrow> request \<Rightarrow> paypal_json prog" where
  "paypalRequest env req st =
     (case gateway env (log st) req of
        Inl m \<Rightarrow> (Inl (GatewayError m), st\<lparr>log := log st @ [Gateway req]\<rparr>)
      | Inr j \<Rightarrow> (Inr j, st\<lparr>log := log st @ [Gateway req]\<rparr>))"

definition storeWrite :: "env \<Rightarrow> store_op \<Rightarrow> (world \<Rightarrow> world) \<Rightarrow> unit prog" where
  "storeWrite env w f st =
     (if storeRejects env (log st) w
      then (Inl (StoreError ''write rejected''), st\<lparr>log := log st @ [Store w]\<rparr>)
      else (Inr (), (f st)\<lparr>log := log st @ [Store w]\<rparr>))"

text \<open>Truthiness of a nullable string and of a nullable number.\<close>

definition truthy :: "string option \<Rightarrow> bool" where
  "truthy s = (case s of None \<Rightarrow> False | Some x \<Rightarrow> x \<noteq> [])"

definition truthyId :: "nat option \<Rightarrow> bool" where
  "truthyId n = (case n of None \<Rightarrow> False | Some i \<Rightarrow> i \<noteq> 0)"

text \<open>\<^verbatim>\<open>ToNumber(null)\<close> is 0 in a relational comparison.\<close>

definition toNumber :: "int option \<Rightarrow> int" where
  "toNumber n = (case n of None \<Rightarrow> 0 | Some i \<Rightarrow> i)"

subsection \<open>Model instances\<close>

fun applySubscriptionField :: "subscription_field \<Rightarrow> Subscription \<Rightarrow> Subscription" where
  "applySubscriptionField (Amount a) s = s\<lparr>amount := a\<rparr>"
| "applySubscriptionField (Interval i) s = s\<lparr>interval := i\<rparr>"
| "applySubscriptionField (IsManagedExternally b) s = s\<lparr>isManagedExternally := b\<rparr>"
| "applySubscriptionField (StripeSubscriptionId i) s = s\<lparr>stripeSubscriptionId := i\<rparr>"
| "applySubscriptionField (PaypalSubscriptionId i) s = s\<lparr>paypalSubscriptionId := i\<rparr>"

fun applyOrderField :: "order_field \<Rightarrow> Order \<Rightarrow> Order" where
  "applyOrderField (TotalAmount a) ord = ord\<lparr>totalAmount := a\<rparr>"
| "applyOrderField (OrderInterval i) ord = ord\<lparr>o_interval := i\<rparr>"
| "applyOrderField (OrderTierId t) ord = ord\<lparr>TierId := t\<rparr>"
| "applyOrderField (OrderPaymentMethodId p) ord = ord\<lparr>PaymentMethodId := p\<rparr>"
| "applyOrderField (OrderStatus s) ord = ord\<lparr>status := s\<rparr>"

text \<open>
  An instance holds the values of its row. \<^verbatim>\<open>instance.update(values)\<close> saves
  the columns that \<open>values\<close> change; when they change none, no statement is
  sent to the store and the call cannot be rejected.
\<close>

definition unchangedBy :: "('a \<Rightarrow> 'a) \<Rightarrow> 'a option \<Rightarrow> bool" where
  "unchangedBy f row = (case row of None \<Rightarrow> False | Some r \<Rightarrow> f r = r)"

definition instanceUpdate :: "env \<Rightarrow> store_op \<Rightarrow> bool \<Rightarrow> (world \<Rightarrow> world) \<Rightarrow> unit prog" where
  "instanceUpdate env w nothingChanged f st =
     (if nothingChanged then (Inr (), st\<lparr>log := log st @ [Store w]\<rparr>)
      else storeWrite env w f st)"

text \<open>\<^verbatim>\<open>subscription.update(values)\<close> on the instance with key \<open>sid\<close>.\<close>

definition subscription_update :: "env \<Rightarrow> nat \<Rightarrow> subscription_field list \<Rightarrow> unit prog" where
  "subscription_update env sid vals st =
     instanceUpdate env (UpdateSubscription sid vals)
       (unchangedBy (fold applySubscriptionField vals) (subscriptions st sid))
       (\<lambda>st. st\<lparr>subscriptions :=
          (subscriptions st)(sid := map_option (fold applySubscriptionField vals) (subscriptions st sid))\<rparr>)
       st"

text \<open>\<^verbatim>\<open>order.update(values)\<close>: writes the row and returns the updated instance.\<close>

definition order_update :: "env \<Rightarrow> Order \<Rightarrow> order_field list \<Rightarrow> Order prog" where
  "order_update env ord vals st =
     await (instanceUpdate env (UpdateOrder (o_id ord) vals)
              (unchangedBy (fold applyOrderField vals) (orders st (o_id ord)))
              (\<lambda>st. st\<lparr>orders :=
                 (orders st)(o_id ord := map_option (fold applyOrderField vals) (orders st (o_id ord)))\<rparr>))
       (\<lambda>_. resolve (fold applyOrderField vals ord)) st"

text \<open>\<^verbatim>\<open>paymentMethod.update({ name })\<close>.\<close>

definition paymentMethod_update_name :: "env \<Rightarrow> PaymentMethod \<Rightarrow> string \<Rightarrow> unit prog" where
  "paymentMethod_update_name env pm n st =
     instanceUpdate env (UpdatePaymentMethodName (pm_id pm) n)
       (unchangedBy (\<lambda>r. r\<lparr>name := Some n\<rparr>) (paymentMethods st (pm_id pm)))
       (\<lambda>st. st\<lparr>paymentMethods :=
          (paymentMethods st)(pm_id pm := map_option (\<lambda>r. r\<lparr>name := Some n\<rparr>) (paymentMethods st (pm_id pm)))\<rparr>)
       st"

text \<open>
  \<^verbatim>\<open>order.getSubscription()\<close>: the row that the order's foreign key points at,
  with its key.
\<close>

definition getSubscription :: "Order \<Rightarrow> world \<Rightarrow> (nat \<times> Subscription) option" where
  "getSubscription ord st =
     (case SubscriptionId ord of
        None \<Rightarrow> None
      | Some sid \<Rightarrow> map_option (Pair sid) (subscriptions st sid))"

text \<open>
  \<^verbatim>\<open>order.Subscription.update(values)\<close>: the loaded association is the row of
  the order's foreign key; with no such row the member read raises.
\<close>

definition orderSubscription_update :: "env \<Rightarrow> Order \<Rightarrow> subscription_field list \<Rightarrow> unit prog" where
  "orderSubscription_update env ord vals st =
     (case getSubscription ord st of
        None \<Rightarrow> reject (TypeError ''Cannot read property update of undefined'') st
      | Some (sid, _) \<Rightarrow> subscription_update env sid vals st)"

section \<open>server/lib/subscriptions.ts\<close>

text \<open>Decimal rendering of a key inside a message.\<close>

fun toString :: "nat \<Rightarrow> string" where
  "toString n =
     (if n < 10 then [char_of (48 + n)] else toString (n div 10) @ [char_of (48 + n mod 10)])"

declare toString.simps [simp del]

definition tierMismatchMessage :: "nat option \<Rightarrow> nat \<Rightarrow> string" where
  "tierMismatchMessage tid cid =
     ''This tier (#'' @ (case tid of None \<Rightarrow> ''undefined'' | Some i \<Rightarrow> toString i)
       @ '') doesn'' @ [CHR 0x27] @ ''t belong to the given Collective #'' @ toString cid"

definition checkSubscriptionDetails :: "Order \<Rightarrow> Tier option \<Rightarrow> int \<Rightarrow> error + unit" where
  "checkSubscriptionDetails ord tier amountInCents =
     (if (case tier of None \<Rightarrow> False | Some t \<Rightarrow> t_CollectiveId t \<noteq> CollectiveId ord)
      then Inl (Error (tierMismatchMessage (map_option t_id tier) (CollectiveId ord)))
      else if amountInCents < 100
      then Inl (Error ''Invalid amount.'')
      else if (case tier of None \<Rightarrow> False
               | Some t \<Rightarrow> amountType t = ''FLEXIBLE'' \<and> amountInCents < toNumber (minimumAmount t))
      then Inl (Error ''Amount is less than minimum value allowed for this Tier.'')
      else if (case tier of None \<Rightarrow> False
               | Some t \<Rightarrow> amountType t = ''FIXED'' \<and> amountInCents < toNumber (t_amount t))
      then Inl (Error ''Amount is incorrect for this Tier.'')
      else Inr ())"

definition updateSubscriptionDetails :: "env \<Rightarrow> Order \<Rightarrow> Tier option \<Rightarrow> int \<Rightarrow> Order prog" where
  "updateSubscriptionDetails env ord tier amountInCents =
     await (\<lambda>st. (checkSubscriptionDetails ord tier amountInCents, st)) (\<lambda>_.
     await (if amountInCents \<noteq> totalAmount ord
            then await (order_update env ord [TotalAmount amountInCents]) (\<lambda>ord1.
                 await (orderSubscription_update env ord1 [Amount amountInCents]) (\<lambda>_.
                 resolve ord1))
            else resolve ord) (\<lambda>ord2.
     let newInterval =
           (case tier of
              None \<Rightarrow> o_interval ord2
            | Some t \<Rightarrow> if truthy (t_interval t) \<and> t_interval t \<noteq> Some ''flexible''
                        then t_interval t else o_interval ord2)
     in
     await (if newInterval \<noteq> o_interval ord2
            then await (order_update env ord2 [OrderInterval newInterval]) (\<lambda>ord3.
                 await (orderSubscription_update env ord3 [Interval newInterval]) (\<lambda>_.
                 resolve ord3))
            else resolve ord2) (\<lambda>ord4.
     order_update env ord4 [OrderTierId (map_option t_id tier)])))"

text \<open>
  Modelled from the spec: \<^verbatim>\<open>sequelize.transaction\<close> is not under src. It is
  the store's multi-record transactional unit: partial writes within the unit
  are not observable, so when the callback raises, the tables are those before
  the unit (the log keeps the attempts).
\<close>

definition transaction :: "'a prog \<Rightarrow> 'a prog" where
  "transaction body st =
     (case body st of
        (Inl e, st') \<Rightarrow> (Inl e, st\<lparr>log := log st'\<rparr>)
      | (Inr v, st') \<Rightarrow> (Inr v, st'))"

text \<open>
  \<^verbatim>\<open>user.isAdminOfCollective(newPaymentMethodCollective)\<close> and
  \<^verbatim>\<open>getIsSubscriptionManagedExternally\<close> (which reads the provider registry of
  \<^verbatim>\<open>lib/payments\<close>) are parameters; \<open>prevPaymentMethod\<close> is the loaded
  \<^verbatim>\<open>order.paymentMethod\<close>. The order statuses \<^verbatim>\<open>OrderStatus.ERROR\<close> and
  \<^verbatim>\<open>OrderStatus.ACTIVE\<close> are the strings of their names.
\<close>

definition updatePaymentMethodForSubscription ::
  "env \<Rightarrow> bool \<Rightarrow> (PaymentMethod option \<Rightarrow> bool) \<Rightarrow> Order \<Rightarrow> PaymentMethod option
     \<Rightarrow> PaymentMethod \<Rightarrow> Order prog" where
  "updatePaymentMethodForSubscription env isAdminOfCollective getIsSubscriptionManagedExternally
       ord prevPaymentMethod newPaymentMethod =
     (if \<not> isAdminOfCollective
      then reject (Unauthorized (''You don'' @ [CHR 0x27]
                     @ ''t have permission to use this payment method''))
      else
        let newStatus = (if status ord = ''ERROR'' then ''ACTIVE'' else status ord);
            wasManagedExternally = getIsSubscriptionManagedExternally prevPaymentMethod;
            isManagedExternally' = getIsSubscriptionManagedExternally (Some newPaymentMethod)
        in transaction
             (await (order_update env ord
                       [OrderPaymentMethodId (Some (pm_id newPaymentMethod)), OrderStatus newStatus])
                (\<lambda>ord1.
              await (if wasManagedExternally \<noteq> isManagedExternally'
                     then orderSubscription_update env ord1
                            [IsManagedExternally isManagedExternally', PaypalSubscriptionId None]
                     else resolve ()) (\<lambda>_.
              resolve ord1))))"

section \<open>server/paymentProviders/paypal/subscription.ts\<close>

definition cancelPaypalSubscription :: "env \<Rightarrow> Order \<Rightarrow> string option \<Rightarrow> unit prog" where
  "cancelPaypalSubscription env ord reason st =
     (case getSubscription ord st of
        None \<Rightarrow> reject (TypeError ''Cannot read property paypalSubscriptionId of null'') st
      | Some (_, subscription) \<Rightarrow>
          await (paypalRequest env
                   (CancelSubscription
                      (case paypalSubscriptionId subscription of None \<Rightarrow> ''null'' | Some i \<Rightarrow> i)
                      reason))
            (\<lambda>_. resolve ()) st)"

definition getProductTypeAndCategory :: "Tier option \<Rightarrow> string \<times> string option" where
  "getProductTypeAndCategory tier =
     (case (case tier of None \<Rightarrow> None | Some t \<Rightarrow> t_type t) of
        Some TICKET \<Rightarrow> (''DIGITAL'', None)
      | Some PRODUCT \<Rightarrow> (''DIGITAL'', Some ''MERCHANDISE'')
      | Some SERVICE \<Rightarrow> (''SERVICE'', None)
      | Some MEMBERSHIP \<Rightarrow> (''DIGITAL'', Some ''MEMBERSHIP_CLUBS_AND_ORGANIZATIONS'')
      | _ \<Rightarrow> (''DIGITAL'', Some ''NONPROFIT''))"

text \<open>The create-product call: name, type, category and home page of the product.\<close>

definition createProductRequest :: "Collective \<Rightarrow> Tier option \<Rightarrow> request" where
  "createProductRequest collective tier =
     (case getProductTypeAndCategory tier of
        (type, category) \<Rightarrow>
          CreateProduct (''Financial contribution to '' @ c_name collective) type category
            (''https://opencollective.com/'' @ c_slug collective))"

definition createPaypalProduct :: "env \<Rightarrow> Collective \<Rightarrow> Tier option \<Rightarrow> paypal_json prog" where
  "createPaypalProduct env collective tier = paypalRequest env (createProductRequest collective tier)"

text \<open>
  The create-plan call, identified by product id, interval, amount and
  currency: the payload's name and description, its upper-cased interval unit
  and its constant billing terms are functions of these. The request carries
  the amount in minor units; the payload's rendering of it as a decimal string
  of major units is done in floating point and is not part of this model.
\<close>

definition createPaypalPlan ::
  "env \<Rightarrow> Collective \<Rightarrow> string \<Rightarrow> string \<Rightarrow> int \<Rightarrow> string \<Rightarrow> Tier option \<Rightarrow> paypal_json prog" where
  "createPaypalPlan env collective productId intvl amt cur tier =
     paypalRequest env (CreatePlan productId intvl amt cur)"

text \<open>
  \<^verbatim>\<open>PaypalPlan.create\<close>: one call on the model. An INSERT is refused when the
  key of its row is taken already. With \<^verbatim>\<open>include: product\<close> the parent row
  is saved first, by an INSERT of its own, and no transaction is passed: when
  the plan's INSERT then fails (its key is taken, or the store rejects the
  call), the product row stays.
\<close>

definition PaypalPlan_create :: "env \<Rightarrow> PaypalPlan \<Rightarrow> PaypalProduct option \<Rightarrow> PaypalPlan prog" where
  "PaypalPlan_create env plan product st =
     (let w = (case product of None \<Rightarrow> CreatePlanOfProduct plan
               | Some p \<Rightarrow> CreatePlanWithProduct plan p);
          st1 = st\<lparr>log := log st @ [Store w]\<rparr>
      in if (case product of None \<Rightarrow> False | Some p \<Rightarrow> p_id p \<in> set (map p_id (products st)))
         then (Inl (StoreError ''Validation error''), st1)
         else
           let st2 = st1\<lparr>products := products st @ (case product of None \<Rightarrow> [] | Some p \<Rightarrow> [p])\<rparr>
           in if pl_id plan \<in> set (map pl_id (plans st))
              then (Inl (StoreError ''Validation error''), st2)
              else if storeRejects env (log st) w
              then (Inl (StoreError ''write rejected''), st2)
              else (Inr plan, st2\<lparr>plans := plans st @ [plan]\<rparr>))"

definition getOrCreatePlan ::
  "env \<Rightarrow> Collective \<Rightarrow> string \<Rightarrow> int \<Rightarrow> string \<Rightarrow> Tier option \<Rightarrow> PaypalPlan prog" where
  "getOrCreatePlan env collective intvl amt cur tier st =
     (case find (\<lambda>p. p_CollectiveId p = c_id collective
                     \<and> p_TierId p = (case tier of None \<Rightarrow> None
                                     | Some t \<Rightarrow> if t_id t = 0 then None else Some (t_id t)))
             (products st) of
        Some product \<Rightarrow>
          (case filter (\<lambda>pl. ProductId pl = p_id product \<and> pl_currency pl = cur
                             \<and> pl_interval pl = intvl \<and> pl_amount pl = amt) (plans st) of
             plan # _ \<Rightarrow> resolve plan st
           | [] \<Rightarrow>
               await (createPaypalPlan env collective (p_id product) intvl amt cur tier) (\<lambda>paypalPlan.
               PaypalPlan_create env
                 \<lparr>pl_id = j_id paypalPlan, ProductId = p_id product, pl_amount = amt,
                  pl_currency = cur, pl_interval = intvl\<rparr> None) st)
      | None \<Rightarrow>
          await (createPaypalProduct env collective tier) (\<lambda>paypalProduct.
          await (createPaypalPlan env collective (j_id paypalProduct) intvl amt cur tier) (\<lambda>paypalPlan.
          PaypalPlan_create env
            \<lparr>pl_id = j_id paypalPlan, ProductId = j_id paypalProduct, pl_amount = amt,
             pl_currency = cur, pl_interval = intvl\<rparr>
            (Some \<lparr>p_id = j_id paypalProduct, p_CollectiveId = c_id collective,
                   p_TierId = map_option t_id tier\<rparr>))) st)"

text \<open>
  \<^verbatim>\<open>order.createSubscription(values)\<close>: inserts the row under the next key of
  the table and points the order at it, in the store and in the instance.
\<close>

definition createSubscription :: "env \<Rightarrow> Order \<Rightarrow> string \<Rightarrow> Order prog" where
  "createSubscription env ord paypalSubscriptionId' st =
     (let sid = nextSubscriptionId st;
          row = \<lparr>amount = totalAmount ord, currency = o_currency ord, interval = o_interval ord,
                 quantity = o_quantity ord, isActive = False, isManagedExternally = True,
                 stripeSubscriptionId = None, paypalSubscriptionId = Some paypalSubscriptionId',
                 nextChargeDate = Some (now env), nextPeriodStart = Some (now env),
                 chargeNumber = 0\<rparr>
      in await
           (storeWrite env (CreateSubscription (o_id ord) row)
              (\<lambda>s. s\<lparr>subscriptions := (subscriptions s)(sid \<mapsto> row),
                      nextSubscriptionId := Suc sid,
                      orders := (orders s)(o_id ord :=
                        map_option (\<lambda>r. r\<lparr>SubscriptionId := Some sid\<rparr>) (orders s (o_id ord)))\<rparr>))
           (\<lambda>_. resolve (ord\<lparr>SubscriptionId := Some sid\<rparr>)) st)"

definition fetchPaypalSubscription :: "env \<Rightarrow> string \<Rightarrow> paypal_json prog" where
  "fetchPaypalSubscription env subscriptionId = paypalRequest env (GetSubscription subscriptionId)"

text \<open>
  The plan with the subscription's plan id whose product belongs to the order's
  collective and tier (an inner join on the product).
\<close>

definition findPlanForOrder :: "Order \<Rightarrow> string \<Rightarrow> world \<Rightarrow> PaypalPlan option" where
  "findPlanForOrder ord planId st =
     find (\<lambda>pl. pl_id pl = planId
               \<and> list_ex (\<lambda>p. p_id p = ProductId pl \<and> p_CollectiveId p = CollectiveId ord
                                \<and> p_TierId p = TierId ord) (products st))
       (plans st)"

definition verifySubscription :: "Order \<Rightarrow> paypal_json \<Rightarrow> world \<Rightarrow> error + unit" where
  "verifySubscription ord paypalSubscription st =
     (if j_status paypalSubscription \<noteq> ''APPROVED''
      then Inl (Error ''Subscription must be approved to be activated'')
      else case findPlanForOrder ord (plan_id paypalSubscription) st of
             None \<Rightarrow> Inl (Error (''PayPal plan does not match the subscription (#''
                                   @ j_id paypalSubscription @ '')''))
           | Some plan \<Rightarrow>
               if pl_amount plan \<noteq> totalAmount ord
               then Inl (Error ''The plan amount does not match the order amount'')
               else Inr ())"

text \<open>\<^verbatim>\<open>pick(existingSubscription?.dataValues, [...])\<close>.\<close>

definition pick :: "(nat \<times> Subscription) option \<Rightarrow> subscription_field list" where
  "pick existingSubscription =
     (case existingSubscription of
        None \<Rightarrow> []
      | Some (_, s) \<Rightarrow>
          [IsManagedExternally (isManagedExternally s),
           StripeSubscriptionId (stripeSubscriptionId s),
           PaypalSubscriptionId (paypalSubscriptionId s)])"

text \<open>The body of the \<^verbatim>\<open>try\<close> block of \<^verbatim>\<open>setupPaypalSubscriptionForOrder\<close>.\<close>

definition tryBlock ::
  "env \<Rightarrow> Order \<Rightarrow> PaymentMethod \<Rightarrow> (nat \<times> Subscription) option \<Rightarrow> Order prog" where
  "tryBlock env ord paymentMethod existingSubscription =
     await (fetchPaypalSubscription env (token paymentMethod)) (\<lambda>newPaypalSubscription.
     await (\<lambda>st. (verifySubscription ord newPaypalSubscription st, st)) (\<lambda>_.
     await (paymentMethod_update_name env paymentMethod
              (subscriber_email_address newPaypalSubscription)) (\<lambda>_.
     await (case existingSubscription of
              Some (sid, existing) \<Rightarrow>
                await (if truthy (paypalSubscriptionId existing)
                       then cancelPaypalSubscription env ord (Some ''Changed payment method'')
                       else resolve ()) (\<lambda>_.
                await (subscription_update env sid
                         [IsManagedExternally True, StripeSubscriptionId None,
                          PaypalSubscriptionId (Some (token paymentMethod))]) (\<lambda>_.
                resolve ord))
            | None \<Rightarrow> createSubscription env ord (token paymentMethod)) (\<lambda>ord'.
     await (paypalRequest env (ActivateSubscription (token paymentMethod))) (\<lambda>_.
     resolve ord')))))"

definition setupPaypalSubscriptionForOrder :: "env \<Rightarrow> Order \<Rightarrow> PaymentMethod \<Rightarrow> Order prog" where
  "setupPaypalSubscriptionForOrder env ord paymentMethod st0 =
     (let existingSubscription =
            (if truthyId (SubscriptionId ord) then getSubscription ord st0 else None);
          initialSubscriptionParams = pick existingSubscription
      in tryCatch
           (tryBlock env ord paymentMethod existingSubscription)
           (\<lambda>e.
              await (case existingSubscription of
                       Some (sid, _) \<Rightarrow> subscription_update env sid initialSubscriptionParams
                     | None \<Rightarrow> resolve ()) (\<lambda>_.
              reject (ErrorWithRootException ''Failed to activate PayPal subscription'' e)))
           st0)"

section \<open>Scenarios\<close>

text \<open>
  Concrete worlds on which the properties below are exercised: a collective
  (key 10) with one product and one monthly plan of 1000 minor units, and an
  order of 1000 for it.
\<close>

definition ex_product :: PaypalProduct where
  "ex_product = \<lparr>p_id = ''PROD-1'', p_CollectiveId = 10, p_TierId = None\<rparr>"

definition ex_plan :: PaypalPlan where
  "ex_plan = \<lparr>pl_id = ''P-1000'', ProductId = ''PROD-1'', pl_amount = 1000,
               pl_currency = ''USD'', pl_interval = ''month''\<rparr>"

definition ex_order :: Order where
  "ex_order = \<lparr>o_id = 1, CollectiveId = 10, FromCollectiveId = 20, TierId = None,
                totalAmount = 1000, o_currency = ''USD'', o_interval = Some ''month'',
                o_quantity = 1, SubscriptionId = None, PaymentMethodId = Some 5,
                status = ''NEW''\<rparr>"

definition ex_paymentMethod :: PaymentMethod where
  "ex_paymentMethod = \<lparr>pm_id = 5, service = ''paypal'', pm_type = ''subscription'',
                        token = ''I-NEW'', name = None, pm_CollectiveId = 20\<rparr>"

definition ex_json :: paypal_json where
  "ex_json = \<lparr>j_id = ''I-NEW'', j_status = ''APPROVED'', plan_id = ''P-1000'',
               subscriber_email_address = ''payer@example.org''\<rparr>"

definition ex_world :: world where
  "ex_world = \<lparr>orders = [1 \<mapsto> ex_order], subscriptions = Map.empty, nextSubscriptionId = 1,
                paymentMethods = [5 \<mapsto> ex_paymentMethod], products = [ex_product],
                plans = [ex_plan], log = []\<rparr>"

text \<open>
  The same order once it is recurring: Subscription 7, charged through a prior
  PayPal subscription.
\<close>

definition ex_subscription :: Subscription where
  "ex_subscription = \<lparr>amount = 1000, currency = ''USD'', interval = Some ''month'', quantity = 1,
      isActive = True, isManagedExternally = True, stripeSubscriptionId = None,
      paypalSubscriptionId = Some ''I-OLD'', nextChargeDate = Some 500,
      nextPeriodStart = Some 500, chargeNumber = 3\<rparr>"

definition ex_order_sub :: Order where
  "ex_order_sub = ex_order\<lparr>SubscriptionId := Some 7\<rparr>"

definition ex_world_sub :: world where
  "ex_world_sub = ex_world\<lparr>orders := [1 \<mapsto> ex_order_sub], subscriptions := [7 \<mapsto> ex_subscription],
      nextSubscriptionId := 8\<rparr>"

text \<open>Two tiers of the collective, and collaborators that never fail.\<close>

definition ex_flexible_tier :: Tier where
  "ex_flexible_tier = \<lparr>t_id = 3, t_CollectiveId = 10, t_type = Some TIER, amountType = ''FLEXIBLE'',
      t_amount = None, minimumAmount = Some 200, t_interval = Some ''month''\<rparr>"

definition ex_fixed_tier :: Tier where
  "ex_fixed_tier = \<lparr>t_id = 4, t_CollectiveId = 10, t_type = Some TIER, amountType = ''FIXED'',
      t_amount = Some 500, minimumAmount = None, t_interval = Some ''month''\<rparr>"

definition ex_env :: env where
  "ex_env = \<lparr>gateway = (\<lambda>_ _. Inr ex_json), storeRejects = (\<lambda>_ _. False), now = 1000\<rparr>"

text \<open>
  Collaborators that fail: the provider refuses every cancellation; the
  provider refuses every activation; the payer has not approved the
  subscription and the store rejects every write; the provider refuses every
  activation and the store is down from the sixth event of a run on.
\<close>

definition cx_env_cancel_fails :: env where
  "cx_env_cancel_fails = \<lparr>gateway = (\<lambda>h req. case req of CancelSubscription _ _ \<Rightarrow> Inl ''RESOURCE_NOT_FOUND'' | _ \<Rightarrow> Inr ex_json),
     storeRejects = (\<lambda>_ _. False), now = 1000\<rparr>"

definition ex_env_activate_fails :: env where
  "ex_env_activate_fails = \<lparr>gateway = (\<lambda>h req. case req of ActivateSubscription _ \<Rightarrow> Inl ''UNPROCESSABLE_ENTITY'' | _ \<Rightarrow> Inr ex_json),
     storeRejects = (\<lambda>_ _. False), now = 1000\<rparr>"



text \<open>
  Subscription 7 when it already carries the id that the payment method's token
  names.
\<close>

definition cx_subscription_same_id :: Subscription where
  "cx_subscription_same_id = ex_subscription\<lparr>paypalSubscriptionId := Some ''I-NEW''\<rparr>"

definition cx_world_same_id :: world where
  "cx_world_same_id = ex_world_sub\<lparr>subscriptions := [7 \<mapsto> cx_subscription_same_id]\<rparr>"

text \<open>
  A second collective with no product yet, a provider that hands out the ids of
  a new product and plan, and a store that rejects every write to the
  Subscription table.
\<close>

definition ex_collective_new :: Collective where
  "ex_collective_new = \<lparr>c_id = 11, c_name = ''Babel'', c_slug = ''babel''\<rparr>"

definition ex_env_catalog :: env where
  "ex_env_catalog = \<lparr>gateway = (\<lambda>h req. case req of
        CreateProduct _ _ _ _ \<Rightarrow> Inr (ex_json\<lparr>j_id := ''PROD-2''\<rparr>)
      | CreatePlan _ _ _ _ \<Rightarrow> Inr (ex_json\<lparr>j_id := ''P-500''\<rparr>)
      | _ \<Rightarrow> Inr ex_json),
     storeRejects = (\<lambda>_ _. False), now = 1000\<rparr>"

definition cx_env_subscription_write_rejected :: env where
  "cx_env_subscription_write_rejected = \<lparr>gateway = (\<lambda>_ _. Inr ex_json),
     storeRejects = (\<lambda>h w. case w of UpdateSubscription _ _ \<Rightarrow> True | _ \<Rightarrow> False), now = 1000\<rparr>"

section \<open>Properties\<close>

subsection \<open>Plan lookup\<close>

lemma findPlanForOrder_Some:
  assumes "distinct (map pl_id (plans st))"
  shows "findPlanForOrder ord pid st = Some plan \<longleftrightarrow>
     (plan \<in> set (plans st) \<and> pl_id plan = pid \<and>
      (\<exists>p \<in> set (products st). p_id p = ProductId plan \<and> p_CollectiveId p = CollectiveId ord \<and> p_TierId p = TierId ord))"
proof
  assume "findPlanForOrder ord pid st = Some plan"
  then show "plan \<in> set (plans st) \<and> pl_id plan = pid \<and>
      (\<exists>p \<in> set (products st). p_id p = ProductId plan \<and> p_CollectiveId p = CollectiveId ord \<and> p_TierId p = TierId ord)"
    unfolding findPlanForOrder_def
    by (auto simp: find_Some_iff list_ex_iff)
next
  assume r: "plan \<in> set (plans st) \<and> pl_id plan = pid \<and>
      (\<exists>p \<in> set (products st). p_id p = ProductId plan \<and> p_CollectiveId p = CollectiveId ord \<and> p_TierId p = TierId ord)"
  then obtain i where i: "i < length (plans st)" "plans st ! i = plan"
    by (auto simp: in_set_conv_nth)
  have "\<And>j. j < i \<Longrightarrow> pl_id (plans st ! j) \<noteq> pid"
  proof
    fix j assume j: "j < i" "pl_id (plans st ! j) = pid"
    then have e: "map pl_id (plans st) ! j = map pl_id (plans st) ! i"
      using i r by simp
    have "j < length (map pl_id (plans st))" "i < length (map pl_id (plans st))"
      using i j by simp_all
    with assms e have "j = i"
      by (simp only: nth_eq_iff_index_eq)
    with j show False by simp
  qed
  then show "findPlanForOrder ord pid st = Some plan"
    unfolding findPlanForOrder_def using r i
    by (auto simp: find_Some_iff list_ex_iff)
qed

lemma findPlanForOrder_None:
  "findPlanForOrder ord pid st = None \<longleftrightarrow>
     \<not> (\<exists>plan \<in> set (plans st). pl_id plan = pid \<and>
      (\<exists>p \<in> set (products st). p_id p = ProductId plan \<and> p_CollectiveId p = CollectiveId ord \<and> p_TierId p = TierId ord))"
  unfolding findPlanForOrder_def by (auto simp: find_None_iff list_ex_iff)

subsection \<open>The verifier\<close>

text \<open>
  Claim C2. With plan ids being keys of the plan table, \<open>verifySubscription\<close>
  succeeds exactly when the external subscription is approved, a local plan
  carries its plan id under a product of the order's collective and tier, and
  that plan's amount is the order's total amount. Otherwise it raises an
  \<open>Error\<close> naming the first check that fails, the three checks being applied
  in this order: status, plan match, amount.
\<close>

theorem verifySubscription_rules:
  assumes "distinct (map pl_id (plans st))"
  shows "(verifySubscription ord ps st = Inr () \<longleftrightarrow>
            j_status ps = ''APPROVED'' \<and>
            (\<exists>plan \<in> set (plans st). pl_id plan = plan_id ps \<and>
               (\<exists>p \<in> set (products st). p_id p = ProductId plan \<and>
                  p_CollectiveId p = CollectiveId ord \<and> p_TierId p = TierId ord) \<and>
               pl_amount plan = totalAmount ord))
       \<and> verifySubscription ord ps st =
           (if j_status ps \<noteq> ''APPROVED''
            then Inl (Error ''Subscription must be approved to be activated'')
            else if \<not> (\<exists>plan \<in> set (plans st). pl_id plan = plan_id ps \<and>
                        (\<exists>p \<in> set (products st). p_id p = ProductId plan \<and>
                           p_CollectiveId p = CollectiveId ord \<and> p_TierId p = TierId ord))
            then Inl (Error (''PayPal plan does not match the subscription (#'' @ j_id ps @ '')''))
            else if \<not> (\<exists>plan \<in> set (plans st). pl_id plan = plan_id ps \<and>
                        (\<exists>p \<in> set (products st). p_id p = ProductId plan \<and>
                           p_CollectiveId p = CollectiveId ord \<and> p_TierId p = TierId ord) \<and>
                        pl_amount plan = totalAmount ord)
            then Inl (Error ''The plan amount does not match the order amount'')
            else Inr ())"
proof -
  define X1 where "X1 \<longleftrightarrow>
    (\<exists>plan \<in> set (plans st). pl_id plan = plan_id ps \<and>
       (\<exists>p \<in> set (products st). p_id p = ProductId plan \<and>
          p_CollectiveId p = CollectiveId ord \<and> p_TierId p = TierId ord))"
  define X2 where "X2 \<longleftrightarrow>
    (\<exists>plan \<in> set (plans st). pl_id plan = plan_id ps \<and>
       (\<exists>p \<in> set (products st). p_id p = ProductId plan \<and>
          p_CollectiveId p = CollectiveId ord \<and> p_TierId p = TierId ord) \<and>
       pl_amount plan = totalAmount ord)"
  have X21: "X2 \<Longrightarrow> X1"
    unfolding X1_def X2_def by blast
  have eq: "verifySubscription ord ps st =
      (if j_status ps \<noteq> ''APPROVED''
       then Inl (Error ''Subscription must be approved to be activated'')
       else if \<not> X1
       then Inl (Error (''PayPal plan does not match the subscription (#'' @ j_id ps @ '')''))
       else if \<not> X2
       then Inl (Error ''The plan amount does not match the order amount'')
       else Inr ())"
  proof (cases "findPlanForOrder ord (plan_id ps) st")
    case None
    then have "\<not> X1"
      unfolding X1_def using findPlanForOrder_None [of ord "plan_id ps" st] by blast
    with None show ?thesis
      by (simp add: verifySubscription_def)
  next
    case (Some plan)
    note m = findPlanForOrder_Some [OF assms, of ord "plan_id ps"]
    from Some m have plan: "plan \<in> set (plans st)" "pl_id plan = plan_id ps"
      "\<exists>p \<in> set (products st). p_id p = ProductId plan \<and>
          p_CollectiveId p = CollectiveId ord \<and> p_TierId p = TierId ord"
      by blast+
    have uniq: "plan' = plan"
      if "plan' \<in> set (plans st)" "pl_id plan' = plan_id ps"
         "\<exists>p \<in> set (products st). p_id p = ProductId plan' \<and>
            p_CollectiveId p = CollectiveId ord \<and> p_TierId p = TierId ord" for plan'
    proof -
      from that m have "findPlanForOrder ord (plan_id ps) st = Some plan'" by blast
      with Some show ?thesis by simp
    qed
    have "X1"
      unfolding X1_def using plan by blast
    moreover have "X2 \<longleftrightarrow> pl_amount plan = totalAmount ord"
      unfolding X2_def using plan uniq by blast
    ultimately show ?thesis
      using Some by (simp add: verifySubscription_def)
  qed
  have "verifySubscription ord ps st = Inr () \<longleftrightarrow> j_status ps = ''APPROVED'' \<and> X2"
    using X21 by (auto simp: eq)
  with eq show ?thesis
    unfolding X1_def X2_def by blast
qed

theorem verifySubscription_rules_witness:
  "distinct (map pl_id (plans ex_world)) \<and> verifySubscription ex_order ex_json ex_world = Inr ()"
proof -
  have d: "distinct (map pl_id (plans ex_world))"
    by (simp add: ex_world_def)
  have "j_status ex_json = ''APPROVED'' \<and>
        (\<exists>plan \<in> set (plans ex_world). pl_id plan = plan_id ex_json \<and>
           (\<exists>p \<in> set (products ex_world). p_id p = ProductId plan \<and>
              p_CollectiveId p = CollectiveId ex_order \<and> p_TierId p = TierId ex_order) \<and>
           pl_amount plan = totalAmount ex_order)"
    by (simp add: ex_world_def ex_order_def ex_json_def ex_plan_def ex_product_def)
  with verifySubscription_rules [OF d, of ex_order ex_json, THEN conjunct1] d
  show ?thesis by (simp only: simp_thms)
qed

subsection \<open>Validation of a change of amount or tier\<close>

text \<open>After validation, no step raises a plain \<open>Error\<close>.\<close>

lemma noError_resolve: "fst (resolve v st) \<noteq> Inl (Error r)"
  by (simp add: resolve_def)

lemma noError_await:
  assumes "\<And>st. fst (m st) \<noteq> Inl (Error r)"
    and "\<And>v st. fst (f v st) \<noteq> Inl (Error r)"
  shows "fst (await m f st) \<noteq> Inl (Error r)"
proof (cases "m st")
  case (Pair res st')
  with assms(1) [of st] assms(2) [of _ st'] show ?thesis
    by (cases res) (simp_all add: await_def)
qed

lemma noError_storeWrite: "fst (storeWrite env w f st) \<noteq> Inl (Error r)"
  by (simp add: storeWrite_def)

lemma noError_instanceUpdate: "fst (instanceUpdate env w c f st) \<noteq> Inl (Error r)"
  by (simp add: instanceUpdate_def storeWrite_def)

lemma noError_order_update: "fst (order_update env ord vals st) \<noteq> Inl (Error r)"
  unfolding order_update_def
  by (intro noError_await noError_instanceUpdate noError_resolve)

lemma noError_orderSubscription_update:
  "fst (orderSubscription_update env ord vals st) \<noteq> Inl (Error r)"
  by (simp add: orderSubscription_update_def subscription_update_def reject_def
      noError_instanceUpdate split: option.splits)

lemma noError_if:
  assumes "fst (a st) \<noteq> Inl (Error r)" and "fst (b st) \<noteq> Inl (Error r)"
  shows "fst ((if c then a else b) st) \<noteq> Inl (Error r)"
  using assms by simp

lemma updateSubscriptionDetails_valid:
  assumes "checkSubscriptionDetails ord tier a = Inr ()"
  shows "fst (updateSubscriptionDetails env ord tier a st) \<noteq> Inl (Error r)"
  unfolding updateSubscriptionDetails_def Let_def
  apply (rule noError_await)
   apply (simp add: assms)
  apply (intro noError_await noError_if noError_resolve noError_order_update
      noError_orderSubscription_update)
  done

lemma updateSubscriptionDetails_invalid:
  assumes "checkSubscriptionDetails ord tier a = Inl e"
  shows "updateSubscriptionDetails env ord tier a st = (Inl e, st)"
  using assms by (simp add: updateSubscriptionDetails_def await_def)

lemma checkSubscriptionDetails_cases:
  "checkSubscriptionDetails ord tier a = Inr () \<or>
   (\<exists>r. checkSubscriptionDetails ord tier a = Inl (Error r))"
  by (simp add: checkSubscriptionDetails_def)

lemma checkSubscriptionDetails_invalid_iff:
  "(\<exists>r. checkSubscriptionDetails ord tier a = Inl (Error r)) \<longleftrightarrow>
     a < 100 \<or> (\<exists>t. tier = Some t \<and>
       (t_CollectiveId t \<noteq> CollectiveId ord
        \<or> (amountType t = ''FLEXIBLE'' \<and> (\<exists>m. minimumAmount t = Some m \<and> a < m))
        \<or> (amountType t = ''FIXED'' \<and> (\<exists>f. t_amount t = Some f \<and> a < f))))"
  by (cases tier) (auto simp: checkSubscriptionDetails_def toNumber_def split: option.splits)

text \<open>
  Claim C7. \<open>updateSubscriptionDetails\<close> raises an \<open>Error\<close> with a reason
  exactly when the amount is below 100, or the tier belongs to another
  collective than the order, or the tier is FLEXIBLE and the amount is below
  its minimum, or the tier is FIXED and the amount is below its amount; and
  when it does, the world (orders, subscriptions, log of writes) is the one
  before the call.
\<close>

theorem updateSubscriptionDetails_validation:
  "((\<exists>reason. fst (updateSubscriptionDetails env ord tier a st) = Inl (Error reason)) \<longleftrightarrow>
      a < 100 \<or> (\<exists>t. tier = Some t \<and>
        (t_CollectiveId t \<noteq> CollectiveId ord
         \<or> (amountType t = ''FLEXIBLE'' \<and> (\<exists>m. minimumAmount t = Some m \<and> a < m))
         \<or> (amountType t = ''FIXED'' \<and> (\<exists>f. t_amount t = Some f \<and> a < f)))))
   \<and> (\<forall>reason. fst (updateSubscriptionDetails env ord tier a st) = Inl (Error reason) \<longrightarrow>
          snd (updateSubscriptionDetails env ord tier a st) = st)"
proof -
  consider (valid) "checkSubscriptionDetails ord tier a = Inr ()"
    | (invalid) r where "checkSubscriptionDetails ord tier a = Inl (Error r)"
    using checkSubscriptionDetails_cases by blast
  then show ?thesis
  proof cases
    case valid
    then have "\<not> (\<exists>r. checkSubscriptionDetails ord tier a = Inl (Error r))" by simp
    with updateSubscriptionDetails_valid [OF valid, of env st]
    show ?thesis
      unfolding checkSubscriptionDetails_invalid_iff by blast
  next
    case invalid
    then have "\<exists>r. checkSubscriptionDetails ord tier a = Inl (Error r)" by blast
    with updateSubscriptionDetails_invalid [OF invalid, of env st]
    show ?thesis
      unfolding checkSubscriptionDetails_invalid_iff by simp
  qed
qed


theorem updateSubscriptionDetails_validation_witness:
  "(\<exists>reason. fst (updateSubscriptionDetails ex_env ex_order_sub None 50 ex_world_sub)
       = Inl (Error reason))
   \<and> snd (updateSubscriptionDetails ex_env ex_order_sub None 50 ex_world_sub) = ex_world_sub
   \<and> \<not> (\<exists>reason. fst (updateSubscriptionDetails ex_env ex_order_sub None 100 ex_world_sub)
       = Inl (Error reason))
   \<and> (\<exists>reason. fst (updateSubscriptionDetails ex_env ex_order_sub (Some ex_fixed_tier) 400 ex_world_sub)
       = Inl (Error reason))
   \<and> \<not> (\<exists>reason. fst (updateSubscriptionDetails ex_env ex_order_sub (Some ex_fixed_tier) 500 ex_world_sub)
       = Inl (Error reason))
   \<and> (\<exists>reason. fst (updateSubscriptionDetails ex_env ex_order_sub (Some ex_flexible_tier) 150 ex_world_sub)
       = Inl (Error reason))
   \<and> \<not> (\<exists>reason. fst (updateSubscriptionDetails ex_env ex_order_sub (Some ex_flexible_tier) 200 ex_world_sub)
       = Inl (Error reason))"
proof -
  note v = updateSubscriptionDetails_validation [of ex_env ex_order_sub _ _ ex_world_sub]
  have c: "CollectiveId ex_order_sub = 10"
    by (simp add: ex_order_sub_def ex_order_def)
  have a: "\<exists>reason. fst (updateSubscriptionDetails ex_env ex_order_sub None 50 ex_world_sub)
       = Inl (Error reason)"
    using v [of None 50, THEN conjunct1] by simp
  with v [of None 50, THEN conjunct2]
  have b: "snd (updateSubscriptionDetails ex_env ex_order_sub None 50 ex_world_sub) = ex_world_sub"
    by blast
  have "\<not> (\<exists>reason. fst (updateSubscriptionDetails ex_env ex_order_sub None 100 ex_world_sub)
       = Inl (Error reason))"
    using v [of None 100, THEN conjunct1] by simp
  moreover have "\<exists>reason. fst (updateSubscriptionDetails ex_env ex_order_sub (Some ex_fixed_tier) 400 ex_world_sub)
       = Inl (Error reason)"
    using v [of "Some ex_fixed_tier" 400, THEN conjunct1] c by (simp add: ex_fixed_tier_def)
  moreover have "\<not> (\<exists>reason. fst (updateSubscriptionDetails ex_env ex_order_sub (Some ex_fixed_tier) 500 ex_world_sub)
       = Inl (Error reason))"
    using v [of "Some ex_fixed_tier" 500, THEN conjunct1] c by (simp add: ex_fixed_tier_def)
  moreover have "\<exists>reason. fst (updateSubscriptionDetails ex_env ex_order_sub (Some ex_flexible_tier) 150 ex_world_sub)
       = Inl (Error reason)"
    using v [of "Some ex_flexible_tier" 150, THEN conjunct1] c by (simp add: ex_flexible_tier_def)
  moreover have "\<not> (\<exists>reason. fst (updateSubscriptionDetails ex_env ex_order_sub (Some ex_flexible_tier) 200 ex_world_sub)
       = Inl (Error reason))"
    using v [of "Some ex_flexible_tier" 200, THEN conjunct1] c by (simp add: ex_flexible_tier_def)
  ultimately show ?thesis
    using a b by (simp only: simp_thms)
qed

subsection \<open>Running a computation\<close>

text \<open>What an outcome of each combinator and of each effect says about its parts.\<close>

lemma await_Inr_iff:
  "await m f st = (Inr v, st') \<longleftrightarrow> (\<exists>u s1. m st = (Inr u, s1) \<and> f u s1 = (Inr v, st'))"
  by (auto simp: await_def split: prod.splits sum.splits)

lemma await_Inl_iff:
  "await m f st = (Inl e, st') \<longleftrightarrow>
     m st = (Inl e, st') \<or> (\<exists>u s1. m st = (Inr u, s1) \<and> f u s1 = (Inl e, st'))"
  by (auto simp: await_def split: prod.splits sum.splits)

lemma tryCatch_Inr_iff:
  "tryCatch m h st = (Inr v, st') \<longleftrightarrow>
     m st = (Inr v, st') \<or> (\<exists>c s1. m st = (Inl c, s1) \<and> h c s1 = (Inr v, st'))"
  by (auto simp: tryCatch_def split: prod.splits sum.splits)

lemma tryCatch_Inl_iff:
  "tryCatch m h st = (Inl e, st') \<longleftrightarrow> (\<exists>c s1. m st = (Inl c, s1) \<and> h c s1 = (Inl e, st'))"
  by (auto simp: tryCatch_def split: prod.splits sum.splits)

lemma resolve_iff:
  "resolve v st = (Inr u, st') \<longleftrightarrow> u = v \<and> st' = st"
  "resolve v st = (Inl e, st') \<longleftrightarrow> False"
  by (auto simp: resolve_def)

lemma reject_iff:
  "reject e st = (Inl e', st') \<longleftrightarrow> e' = e \<and> st' = st"
  "reject e st = (Inr u, st') \<longleftrightarrow> False"
  by (auto simp: reject_def)

lemma paypalRequest_Inr_iff:
  "paypalRequest env req st = (Inr j, st') \<longleftrightarrow>
     gateway env (log st) req = Inr j \<and> st' = st\<lparr>log := log st @ [Gateway req]\<rparr>"
  by (auto simp: paypalRequest_def split: sum.splits)

lemma paypalRequest_Inl_iff:
  "paypalRequest env req st = (Inl e, st') \<longleftrightarrow>
     (\<exists>m. gateway env (log st) req = Inl m \<and> e = GatewayError m)
     \<and> st' = st\<lparr>log := log st @ [Gateway req]\<rparr>"
  by (auto simp: paypalRequest_def split: sum.splits)

lemma storeWrite_Inr_iff:
  "storeWrite env w f st = (Inr u, st') \<longleftrightarrow>
     \<not> storeRejects env (log st) w \<and> st' = (f st)\<lparr>log := log st @ [Store w]\<rparr>"
  by (auto simp: storeWrite_def)

lemma storeWrite_Inl_iff:
  "storeWrite env w f st = (Inl e, st') \<longleftrightarrow>
     storeRejects env (log st) w \<and> e = StoreError ''write rejected''
     \<and> st' = st\<lparr>log := log st @ [Store w]\<rparr>"
  by (auto simp: storeWrite_def)

lemma subscription_update_Inr_iff:
  "subscription_update env sid vals st = (Inr u, st') \<longleftrightarrow>
     (unchangedBy (fold applySubscriptionField vals) (subscriptions st sid)
      \<or> \<not> storeRejects env (log st) (UpdateSubscription sid vals))
     \<and> st' = st\<lparr>subscriptions :=
                  (subscriptions st)(sid :=
                     map_option (fold applySubscriptionField vals) (subscriptions st sid)),
                log := log st @ [Store (UpdateSubscription sid vals)]\<rparr>"
  by (cases "subscriptions st sid")
    (auto simp: subscription_update_def instanceUpdate_def unchangedBy_def storeWrite_def
      fun_upd_idem)

lemma subscription_update_Inl_iff:
  "subscription_update env sid vals st = (Inl e, st') \<longleftrightarrow>
     \<not> unchangedBy (fold applySubscriptionField vals) (subscriptions st sid)
     \<and> storeRejects env (log st) (UpdateSubscription sid vals)
     \<and> e = StoreError ''write rejected''
     \<and> st' = st\<lparr>log := log st @ [Store (UpdateSubscription sid vals)]\<rparr>"
  by (auto simp: subscription_update_def instanceUpdate_def storeWrite_def)

lemma paymentMethod_update_name_Inr_iff:
  "paymentMethod_update_name env pm n st = (Inr u, st') \<longleftrightarrow>
     (unchangedBy (\<lambda>r. r\<lparr>name := Some n\<rparr>) (paymentMethods st (pm_id pm))
      \<or> \<not> storeRejects env (log st) (UpdatePaymentMethodName (pm_id pm) n))
     \<and> st' = st\<lparr>paymentMethods :=
                  (paymentMethods st)(pm_id pm :=
                     map_option (\<lambda>r. r\<lparr>name := Some n\<rparr>) (paymentMethods st (pm_id pm))),
                log := log st @ [Store (UpdatePaymentMethodName (pm_id pm) n)]\<rparr>"
  by (cases "paymentMethods st (pm_id pm)")
    (auto simp: paymentMethod_update_name_def instanceUpdate_def unchangedBy_def storeWrite_def
      fun_upd_idem)

lemma paymentMethod_update_name_Inl_iff:
  "paymentMethod_update_name env pm n st = (Inl e, st') \<longleftrightarrow>
     \<not> unchangedBy (\<lambda>r. r\<lparr>name := Some n\<rparr>) (paymentMethods st (pm_id pm))
     \<and> storeRejects env (log st) (UpdatePaymentMethodName (pm_id pm) n)
     \<and> e = StoreError ''write rejected''
     \<and> st' = st\<lparr>log := log st @ [Store (UpdatePaymentMethodName (pm_id pm) n)]\<rparr>"
  by (auto simp: paymentMethod_update_name_def instanceUpdate_def storeWrite_def)

lemmas run_iffs = await_Inr_iff await_Inl_iff tryCatch_Inr_iff tryCatch_Inl_iff resolve_iff reject_iff
  paypalRequest_Inr_iff paypalRequest_Inl_iff storeWrite_Inr_iff storeWrite_Inl_iff
  subscription_update_Inr_iff subscription_update_Inl_iff
  paymentMethod_update_name_Inr_iff paymentMethod_update_name_Inl_iff

lemma verifySubscription_log [simp]:
  "verifySubscription ord ps (st\<lparr>log := l\<rparr>) = verifySubscription ord ps st"
  by (simp add: verifySubscription_def findPlanForOrder_def)

lemma restore_row:
  "fold applySubscriptionField (pick (Some (sid, sub))) 
     (sub\<lparr>isManagedExternally := a, stripeSubscriptionId := b, paypalSubscriptionId := c\<rparr>) = sub"
  "fold applySubscriptionField (pick (Some (sid, sub))) sub = sub"
  by (simp_all add: pick_def)

lemmas prog_defs = await_def tryCatch_def resolve_def reject_def paypalRequest_def storeWrite_def
  instanceUpdate_def unchangedBy_def tryBlock_def
  subscription_update_def paymentMethod_update_name_def fetchPaypalSubscription_def
  cancelPaypalSubscription_def createSubscription_def getSubscription_def truthy_def truthyId_def
  pick_def verifySubscription_def findPlanForOrder_def

lemmas ex_defs = ex_world_def ex_world_sub_def ex_order_def ex_order_sub_def ex_subscription_def
  ex_paymentMethod_def ex_json_def ex_plan_def ex_product_def

lemma getSubscription_frame [simp]:
  "getSubscription ord (st\<lparr>log := l\<rparr>) = getSubscription ord st"
  "getSubscription ord (st\<lparr>paymentMethods := pms\<rparr>) = getSubscription ord st"
  by (simp_all add: getSubscription_def split: option.splits)

lemma existing_eq:
  assumes "SubscriptionId ord = Some sid" "sid \<noteq> 0" "subscriptions st sid = Some sub"
  shows "(if truthyId (SubscriptionId ord) then getSubscription ord st else None) = Some (sid, sub)"
    and "getSubscription ord st = Some (sid, sub)"
  using assms by (simp_all add: getSubscription_def truthyId_def)

lemmas step_defs = tryBlock_def fetchPaypalSubscription_def cancelPaypalSubscription_def
  createSubscription_def

subsection \<open>Activation: rollback\<close>





subsection \<open>Activation: cancelling the prior subscription\<close>

text \<open>
  Claim C3, as stated, fails: the cancel call sits in the same \<^verbatim>\<open>try\<close> block
  as the other steps. When the provider refuses the cancellation, the call
  raises, the only write to the Subscription is the restoring one, and no
  activate call is issued.
\<close>

theorem cancel_failure_tolerated_counterexample:
  "fst (setupPaypalSubscriptionForOrder cx_env_cancel_fails ex_order_sub ex_paymentMethod ex_world_sub)
     = Inl (ErrorWithRootException ''Failed to activate PayPal subscription''
              (GatewayError ''RESOURCE_NOT_FOUND''))
   \<and> log (snd (setupPaypalSubscriptionForOrder cx_env_cancel_fails ex_order_sub ex_paymentMethod
         ex_world_sub))
     = [Gateway (GetSubscription ''I-NEW''),
        Store (UpdatePaymentMethodName 5 ''payer@example.org''),
        Gateway (CancelSubscription ''I-OLD'' (Some ''Changed payment method'')),
        Store (UpdateSubscription 7 [IsManagedExternally True, StripeSubscriptionId None,
                 PaypalSubscriptionId (Some ''I-OLD'')])]
   \<and> map_option paypalSubscriptionId
        (subscriptions (snd (setupPaypalSubscriptionForOrder cx_env_cancel_fails ex_order_sub
           ex_paymentMethod ex_world_sub)) 7) = Some (Some ''I-OLD'')"
  by (simp add: setupPaypalSubscriptionForOrder_def Let_def prog_defs ex_defs cx_env_cancel_fails_def)

text \<open>
  Claim C3, amended. For an order whose Subscription carries a non-empty prior
  external id, a failure of the cancel call aborts the activation: the call
  raises, the Subscription row is the one before the call, and no activate call
  is issued; when the steps before the cancellation succeed and the store
  accepts the restoring write, the error raised wraps the gateway's failure.
\<close>

theorem cancel_failure_aborts:
  assumes ex: "SubscriptionId ord = Some sid" "sid \<noteq> 0" "subscriptions st sid = Some sub"
    and old: "paypalSubscriptionId sub = Some old" "old \<noteq> []"
    and cancel_fails:
      "\<And>h. gateway env h (CancelSubscription old (Some ''Changed payment method'')) = Inl m"
  shows "(\<exists>e. fst (setupPaypalSubscriptionForOrder env ord pm st) = Inl e)
       \<and> subscriptions (snd (setupPaypalSubscriptionForOrder env ord pm st)) sid = Some sub
       \<and> Gateway (ActivateSubscription (token pm))
            \<notin> set (drop (length (log st)) (log (snd (setupPaypalSubscriptionForOrder env ord pm st))))
       \<and> (\<forall>ps. gateway env (log st) (GetSubscription (token pm)) = Inr ps \<longrightarrow>
             verifySubscription ord ps st = Inr () \<longrightarrow>
             \<not> storeRejects env (log st @ [Gateway (GetSubscription (token pm))])
                  (UpdatePaymentMethodName (pm_id pm) (subscriber_email_address ps)) \<longrightarrow>
             (\<forall>h. \<not> storeRejects env h (UpdateSubscription sid (pick (Some (sid, sub))))) \<longrightarrow>
             fst (setupPaypalSubscriptionForOrder env ord pm st)
               = Inl (ErrorWithRootException ''Failed to activate PayPal subscription''
                        (GatewayError m)))"
proof -
  note E = existing_eq [OF ex]
  obtain r st' where run: "setupPaypalSubscriptionForOrder env ord pm st = (r, st')"
    by (cases "setupPaypalSubscriptionForOrder env ord pm st")
  have "(\<exists>e. r = Inl e)
       \<and> subscriptions st' sid = Some sub
       \<and> Gateway (ActivateSubscription (token pm)) \<notin> set (drop (length (log st)) (log st'))
       \<and> (\<forall>ps. gateway env (log st) (GetSubscription (token pm)) = Inr ps \<longrightarrow>
             verifySubscription ord ps st = Inr () \<longrightarrow>
             \<not> storeRejects env (log st @ [Gateway (GetSubscription (token pm))])
                  (UpdatePaymentMethodName (pm_id pm) (subscriber_email_address ps)) \<longrightarrow>
             (\<forall>h. \<not> storeRejects env h (UpdateSubscription sid (pick (Some (sid, sub))))) \<longrightarrow>
             r = Inl (ErrorWithRootException ''Failed to activate PayPal subscription''
                        (GatewayError m)))"
  proof (cases r)
    case (Inl e)
    with run cancel_fails ex(3) old show ?thesis
      apply (simp only: setupPaypalSubscriptionForOrder_def Let_def E(1))
      apply (auto simp add: run_iffs step_defs E(2) restore_row truthy_def split: if_splits)
      done
  next
    case (Inr v)
    with run cancel_fails ex(3) old show ?thesis
      apply (simp only: setupPaypalSubscriptionForOrder_def Let_def E(1))
      apply (auto simp add: run_iffs step_defs E(2) restore_row truthy_def split: if_splits)
      done
  qed
  with run show ?thesis by simp
qed


theorem cancel_failure_aborts_witness:
  "(\<exists>e. fst (setupPaypalSubscriptionForOrder cx_env_cancel_fails ex_order_sub ex_paymentMethod
           ex_world_sub) = Inl e)
   \<and> subscriptions (snd (setupPaypalSubscriptionForOrder cx_env_cancel_fails ex_order_sub
         ex_paymentMethod ex_world_sub)) 7 = Some ex_subscription
   \<and> Gateway (ActivateSubscription ''I-NEW'')
        \<notin> set (log (snd (setupPaypalSubscriptionForOrder cx_env_cancel_fails ex_order_sub
                 ex_paymentMethod ex_world_sub)))"
proof -
  have "SubscriptionId ex_order_sub = Some 7" "(7::nat) \<noteq> 0"
    "subscriptions ex_world_sub 7 = Some ex_subscription"
    "paypalSubscriptionId ex_subscription = Some ''I-OLD''" "''I-OLD'' \<noteq> []"
    "\<And>h. gateway cx_env_cancel_fails h (CancelSubscription ''I-OLD'' (Some ''Changed payment method''))
       = Inl ''RESOURCE_NOT_FOUND''"
    by (simp_all add: ex_defs cx_env_cancel_fails_def)
  from cancel_failure_aborts [OF this, of ex_paymentMethod]
  have "(\<exists>e. fst (setupPaypalSubscriptionForOrder cx_env_cancel_fails ex_order_sub ex_paymentMethod
           ex_world_sub) = Inl e)
   \<and> subscriptions (snd (setupPaypalSubscriptionForOrder cx_env_cancel_fails ex_order_sub
         ex_paymentMethod ex_world_sub)) 7 = Some ex_subscription
   \<and> Gateway (ActivateSubscription (token ex_paymentMethod))
        \<notin> set (drop (length (log ex_world_sub))
             (log (snd (setupPaypalSubscriptionForOrder cx_env_cancel_fails ex_order_sub
                 ex_paymentMethod ex_world_sub))))"
    by blast
  moreover have "token ex_paymentMethod = ''I-NEW''" "length (log ex_world_sub) = 0"
    by (simp_all add: ex_defs)
  ultimately show ?thesis by simp
qed

subsection \<open>Activation: when the prior subscription is cancelled\<close>

text \<open>
  Claim C4, as stated, fails: the guard of the cancel call is that the old id
  is non-empty, not that it differs from the new one. With an old id equal to
  the payment method's token, the cancel call is issued against that id.
\<close>

theorem cancel_iff_different_counterexample:
  "paypalSubscriptionId cx_subscription_same_id = Some (token ex_paymentMethod)
   \<and> subscriptions cx_world_same_id 7 = Some cx_subscription_same_id
   \<and> fst (setupPaypalSubscriptionForOrder ex_env ex_order_sub ex_paymentMethod cx_world_same_id)
       = Inr ex_order_sub
   \<and> log (snd (setupPaypalSubscriptionForOrder ex_env ex_order_sub ex_paymentMethod cx_world_same_id))
     = [Gateway (GetSubscription ''I-NEW''),
        Store (UpdatePaymentMethodName 5 ''payer@example.org''),
        Gateway (CancelSubscription ''I-NEW'' (Some ''Changed payment method'')),
        Store (UpdateSubscription 7 [IsManagedExternally True, StripeSubscriptionId None,
                 PaypalSubscriptionId (Some ''I-NEW'')]),
        Gateway (ActivateSubscription ''I-NEW'')]"
  by (simp add: setupPaypalSubscriptionForOrder_def Let_def prog_defs ex_defs ex_env_def
      cx_world_same_id_def cx_subscription_same_id_def)

text \<open>
  Claim C4, amended. For an order whose Subscription carries an external id
  \<open>old\<close>, once the external subscription is fetched and verified and the
  payment method's name is written, a cancel call against \<open>old\<close> is issued
  if and only if \<open>old\<close> is non-empty, equal to the new id or not. On the
  success path the events are, in order: the fetch, the write of the name, the
  cancel of the old id (when non-empty), the update of the Subscription to the
  new id with \<open>isManagedExternally\<close> set and \<open>stripeSubscriptionId\<close>
  cleared, and the activate call on the new id.
\<close>

theorem setup_existing_sequence:
  assumes ex: "SubscriptionId ord = Some sid" "sid \<noteq> 0" "subscriptions st sid = Some sub"
    and old: "paypalSubscriptionId sub = Some old"
    and fetch: "gateway env (log st) (GetSubscription (token pm)) = Inr ps"
    and verify: "verifySubscription ord ps st = Inr ()"
    and named: "\<not> storeRejects env (log st @ [Gateway (GetSubscription (token pm))])
                  (UpdatePaymentMethodName (pm_id pm) (subscriber_email_address ps))"
  shows "(Gateway (CancelSubscription old (Some ''Changed payment method''))
            \<in> set (drop (length (log st)) (log (snd (setupPaypalSubscriptionForOrder env ord pm st))))
          \<longleftrightarrow> old \<noteq> [])
       \<and> (\<forall>ord'. fst (setupPaypalSubscriptionForOrder env ord pm st) = Inr ord' \<longrightarrow>
            ord' = ord
            \<and> log (snd (setupPaypalSubscriptionForOrder env ord pm st))
                = log st
                  @ [Gateway (GetSubscription (token pm)),
                     Store (UpdatePaymentMethodName (pm_id pm) (subscriber_email_address ps))]
                  @ (if old \<noteq> []
                     then [Gateway (CancelSubscription old (Some ''Changed payment method''))]
                     else [])
                  @ [Store (UpdateSubscription sid
                       [IsManagedExternally True, StripeSubscriptionId None,
                        PaypalSubscriptionId (Some (token pm))]),
                     Gateway (ActivateSubscription (token pm))]
            \<and> subscriptions (snd (setupPaypalSubscriptionForOrder env ord pm st)) sid
                = Some (sub\<lparr>isManagedExternally := True, stripeSubscriptionId := None,
                              paypalSubscriptionId := Some (token pm)\<rparr>))"
proof -
  note E = existing_eq [OF ex]
  obtain r st' where run: "setupPaypalSubscriptionForOrder env ord pm st = (r, st')"
    by (cases "setupPaypalSubscriptionForOrder env ord pm st")
  have main: "(Gateway (CancelSubscription old (Some ''Changed payment method''))
            \<in> set (drop (length (log st)) (log st')) \<longleftrightarrow> old \<noteq> [])
       \<and> (\<forall>ord'. r = Inr ord' \<longrightarrow>
            ord' = ord
            \<and> log st'
                = log st
                  @ [Gateway (GetSubscription (token pm)),
                     Store (UpdatePaymentMethodName (pm_id pm) (subscriber_email_address ps))]
                  @ (if old \<noteq> []
                     then [Gateway (CancelSubscription old (Some ''Changed payment method''))]
                     else [])
                  @ [Store (UpdateSubscription sid
                       [IsManagedExternally True, StripeSubscriptionId None,
                        PaypalSubscriptionId (Some (token pm))]),
                     Gateway (ActivateSubscription (token pm))]
            \<and> subscriptions st' sid
                = Some (sub\<lparr>isManagedExternally := True, stripeSubscriptionId := None,
                              paypalSubscriptionId := Some (token pm)\<rparr>))"
  proof (cases r)
    case (Inl e)
    with run fetch verify named ex(3) old show ?thesis
      apply (simp only: setupPaypalSubscriptionForOrder_def Let_def E(1))
      apply (auto simp add: run_iffs step_defs E(2) truthy_def split: if_splits)
      done
  next
    case (Inr v)
    with run fetch verify named ex(3) old show ?thesis
      apply (simp only: setupPaypalSubscriptionForOrder_def Let_def E(1))
      apply (auto simp add: run_iffs step_defs E(2) truthy_def split: if_splits)
      done
  qed
  from run have fs: "fst (setupPaypalSubscriptionForOrder env ord pm st) = r"
    "snd (setupPaypalSubscriptionForOrder env ord pm st) = st'"
    by simp_all
  show ?thesis
    unfolding fs by (rule main)
qed

theorem setup_existing_sequence_witness:
  "Gateway (CancelSubscription ''I-OLD'' (Some ''Changed payment method''))
     \<in> set (log (snd (setupPaypalSubscriptionForOrder ex_env ex_order_sub ex_paymentMethod ex_world_sub)))
   \<and> log (snd (setupPaypalSubscriptionForOrder ex_env ex_order_sub ex_paymentMethod ex_world_sub))
     = [Gateway (GetSubscription ''I-NEW''),
        Store (UpdatePaymentMethodName 5 ''payer@example.org''),
        Gateway (CancelSubscription ''I-OLD'' (Some ''Changed payment method'')),
        Store (UpdateSubscription 7 [IsManagedExternally True, StripeSubscriptionId None,
                 PaypalSubscriptionId (Some ''I-NEW'')]),
        Gateway (ActivateSubscription ''I-NEW'')]
   \<and> map_option paypalSubscriptionId
        (subscriptions (snd (setupPaypalSubscriptionForOrder ex_env ex_order_sub ex_paymentMethod
           ex_world_sub)) 7) = Some (Some ''I-NEW'')"
proof -
  have ok: "fst (setupPaypalSubscriptionForOrder ex_env ex_order_sub ex_paymentMethod ex_world_sub)
      = Inr ex_order_sub"
    by (simp add: setupPaypalSubscriptionForOrder_def Let_def prog_defs ex_defs ex_env_def)
  have "SubscriptionId ex_order_sub = Some 7" "(7::nat) \<noteq> 0"
    "subscriptions ex_world_sub 7 = Some ex_subscription"
    "paypalSubscriptionId ex_subscription = Some ''I-OLD''"
    "gateway ex_env (log ex_world_sub) (GetSubscription (token ex_paymentMethod)) = Inr ex_json"
    "verifySubscription ex_order_sub ex_json ex_world_sub = Inr ()"
    "\<not> storeRejects ex_env (log ex_world_sub @ [Gateway (GetSubscription (token ex_paymentMethod))])
        (UpdatePaymentMethodName (pm_id ex_paymentMethod) (subscriber_email_address ex_json))"
    by (simp_all add: ex_defs ex_env_def verifySubscription_def findPlanForOrder_def)
  note t = setup_existing_sequence [OF this]
  have v: "token ex_paymentMethod = ''I-NEW''" "log ex_world_sub = []"
    "pm_id ex_paymentMethod = 5" "subscriber_email_address ex_json = ''payer@example.org''"
    by (simp_all add: ex_defs)
  from t [THEN conjunct1] have "Gateway (CancelSubscription ''I-OLD'' (Some ''Changed payment method''))
     \<in> set (log (snd (setupPaypalSubscriptionForOrder ex_env ex_order_sub ex_paymentMethod ex_world_sub)))"
    by (simp add: v)
  moreover from t [THEN conjunct2] ok
  have "log (snd (setupPaypalSubscriptionForOrder ex_env ex_order_sub ex_paymentMethod ex_world_sub))
        = log ex_world_sub
                  @ [Gateway (GetSubscription (token ex_paymentMethod)),
                     Store (UpdatePaymentMethodName (pm_id ex_paymentMethod) (subscriber_email_address ex_json))]
                  @ (if ''I-OLD'' \<noteq> []
                     then [Gateway (CancelSubscription ''I-OLD'' (Some ''Changed payment method''))]
                     else [])
                  @ [Store (UpdateSubscription 7
                       [IsManagedExternally True, StripeSubscriptionId None,
                        PaypalSubscriptionId (Some (token ex_paymentMethod))]),
                     Gateway (ActivateSubscription (token ex_paymentMethod))]"
     "subscriptions (snd (setupPaypalSubscriptionForOrder ex_env ex_order_sub ex_paymentMethod ex_world_sub)) 7
        = Some (ex_subscription\<lparr>isManagedExternally := True, stripeSubscriptionId := None,
                              paypalSubscriptionId := Some (token ex_paymentMethod)\<rparr>)"
    by blast+
  ultimately show ?thesis
    by (simp add: v)
qed

subsection \<open>Activation: the payment method's name\<close>

text \<open>
  Claim C9. When the external subscription is fetched and verified and the
  write of the payment method's name is accepted, a later failure of
  \<open>setupPaypalSubscriptionForOrder\<close> leaves the name at the subscriber's
  email address: the handler restores Subscription columns only.
\<close>

theorem setup_failure_keeps_name:
  assumes fetch: "gateway env (log st) (GetSubscription (token pm)) = Inr ps"
    and verify: "verifySubscription ord ps st = Inr ()"
    and named: "\<not> storeRejects env (log st @ [Gateway (GetSubscription (token pm))])
                  (UpdatePaymentMethodName (pm_id pm) (subscriber_email_address ps))"
    and row: "paymentMethods st (pm_id pm) = Some r"
    and fails: "fst (setupPaypalSubscriptionForOrder env ord pm st) = Inl e"
  shows "paymentMethods (snd (setupPaypalSubscriptionForOrder env ord pm st)) (pm_id pm)
           = Some (r\<lparr>name := Some (subscriber_email_address ps)\<rparr>)"
proof -
  obtain st' where run: "setupPaypalSubscriptionForOrder env ord pm st = (Inl e, st')"
    using fails by (metis prod.collapse)
  have main: "paymentMethods st' (pm_id pm) = Some (r\<lparr>name := Some (subscriber_email_address ps)\<rparr>)"
  proof (cases "if truthyId (SubscriptionId ord) then getSubscription ord st else None")
    case None
    with run fetch verify named row show ?thesis
      apply (simp only: setupPaypalSubscriptionForOrder_def Let_def)
      apply (auto simp add: run_iffs step_defs pick_def Let_def split: if_splits)
      done
  next
    case (Some p)
    obtain sid sub where p: "p = (sid, sub)" by (cases p)
    from Some p have g: "getSubscription ord st = Some (sid, sub)"
      by (simp split: if_splits)
    from run fetch verify named row Some p show ?thesis
      apply (simp only: setupPaypalSubscriptionForOrder_def Let_def)
      apply (auto simp add: run_iffs step_defs g split: if_splits)
      done
  qed
  from run have fs: "snd (setupPaypalSubscriptionForOrder env ord pm st) = st'"
    by simp
  show ?thesis
    unfolding fs by (rule main)
qed


theorem setup_failure_keeps_name_witness:
  "fst (setupPaypalSubscriptionForOrder ex_env_activate_fails ex_order ex_paymentMethod ex_world)
     = Inl (ErrorWithRootException ''Failed to activate PayPal subscription''
              (GatewayError ''UNPROCESSABLE_ENTITY''))
   \<and> name ex_paymentMethod = None
   \<and> paymentMethods (snd (setupPaypalSubscriptionForOrder ex_env_activate_fails ex_order
         ex_paymentMethod ex_world)) 5
       = Some (ex_paymentMethod\<lparr>name := Some ''payer@example.org''\<rparr>)"
proof -
  have f: "fst (setupPaypalSubscriptionForOrder ex_env_activate_fails ex_order ex_paymentMethod
      ex_world) = Inl (ErrorWithRootException ''Failed to activate PayPal subscription''
              (GatewayError ''UNPROCESSABLE_ENTITY''))"
    by (simp add: setupPaypalSubscriptionForOrder_def Let_def prog_defs ex_defs
        ex_env_activate_fails_def)
  have "gateway ex_env_activate_fails (log ex_world) (GetSubscription (token ex_paymentMethod))
          = Inr ex_json"
    "verifySubscription ex_order ex_json ex_world = Inr ()"
    "\<not> storeRejects ex_env_activate_fails
        (log ex_world @ [Gateway (GetSubscription (token ex_paymentMethod))])
        (UpdatePaymentMethodName (pm_id ex_paymentMethod) (subscriber_email_address ex_json))"
    "paymentMethods ex_world (pm_id ex_paymentMethod) = Some ex_paymentMethod"
    by (simp_all add: ex_defs ex_env_activate_fails_def verifySubscription_def findPlanForOrder_def)
  from setup_failure_keeps_name [OF this f] f show ?thesis
    by (simp add: ex_paymentMethod_def ex_json_def)
qed

subsection \<open>Activation: the created Subscription\<close>

text \<open>
  Claim C10. For an order with no Subscription, a successful activation
  creates the Subscription with \<open>isActive = False\<close>,
  \<open>isManagedExternally = True\<close>, \<open>chargeNumber = 0\<close>, amount, currency,
  interval and quantity of the order, the payment method's token as external
  id, and both timestamps at the clock's reading; no other Subscription row
  changes, so no active flag is set.
\<close>

theorem setup_creates_inactive_subscription:
  assumes none: "SubscriptionId ord = None"
    and ok: "fst (setupPaypalSubscriptionForOrder env ord pm st) = Inr ord'"
  shows "SubscriptionId ord' = Some (nextSubscriptionId st)
       \<and> subscriptions (snd (setupPaypalSubscriptionForOrder env ord pm st)) (nextSubscriptionId st)
           = Some \<lparr>amount = totalAmount ord, currency = o_currency ord, interval = o_interval ord,
                   quantity = o_quantity ord, isActive = False, isManagedExternally = True,
                   stripeSubscriptionId = None, paypalSubscriptionId = Some (token pm),
                   nextChargeDate = Some (now env), nextPeriodStart = Some (now env),
                   chargeNumber = 0\<rparr>
       \<and> (\<forall>k. k \<noteq> nextSubscriptionId st \<longrightarrow>
             subscriptions (snd (setupPaypalSubscriptionForOrder env ord pm st)) k
               = subscriptions st k)"
proof -
  have E: "(if truthyId (SubscriptionId ord) then getSubscription ord st else None) = None"
    using none by (simp add: truthyId_def)
  obtain st' where run: "setupPaypalSubscriptionForOrder env ord pm st = (Inr ord', st')"
    using ok by (metis prod.collapse)
  have main: "SubscriptionId ord' = Some (nextSubscriptionId st)
       \<and> subscriptions st' (nextSubscriptionId st)
           = Some \<lparr>amount = totalAmount ord, currency = o_currency ord, interval = o_interval ord,
                   quantity = o_quantity ord, isActive = False, isManagedExternally = True,
                   stripeSubscriptionId = None, paypalSubscriptionId = Some (token pm),
                   nextChargeDate = Some (now env), nextPeriodStart = Some (now env),
                   chargeNumber = 0\<rparr>
       \<and> (\<forall>k. k \<noteq> nextSubscriptionId st \<longrightarrow> subscriptions st' k = subscriptions st k)"
    using run
    apply (simp only: setupPaypalSubscriptionForOrder_def Let_def E)
    apply (auto simp add: run_iffs step_defs pick_def Let_def split: if_splits)
    done
  from run have fs: "snd (setupPaypalSubscriptionForOrder env ord pm st) = st'"
    by simp
  show ?thesis
    unfolding fs by (rule main)
qed

theorem setup_creates_inactive_subscription_witness:
  "fst (setupPaypalSubscriptionForOrder ex_env ex_order ex_paymentMethod ex_world)
     = Inr (ex_order\<lparr>SubscriptionId := Some 1\<rparr>)
   \<and> subscriptions (snd (setupPaypalSubscriptionForOrder ex_env ex_order ex_paymentMethod ex_world)) 1
       = Some \<lparr>amount = 1000, currency = ''USD'', interval = Some ''month'', quantity = 1,
               isActive = False, isManagedExternally = True, stripeSubscriptionId = None,
               paypalSubscriptionId = Some ''I-NEW'', nextChargeDate = Some 1000,
               nextPeriodStart = Some 1000, chargeNumber = 0\<rparr>"
proof -
  have ok: "fst (setupPaypalSubscriptionForOrder ex_env ex_order ex_paymentMethod ex_world)
     = Inr (ex_order\<lparr>SubscriptionId := Some 1\<rparr>)"
    by (simp add: setupPaypalSubscriptionForOrder_def Let_def prog_defs ex_defs ex_env_def)
  have none: "SubscriptionId ex_order = None"
    by (simp add: ex_order_def)
  from setup_creates_inactive_subscription [OF none ok, THEN conjunct2, THEN conjunct1] ok
  show ?thesis
    by (simp add: ex_defs ex_env_def)
qed

subsection \<open>The plan resolver\<close>

lemma find_append_None: "find P xs = None \<Longrightarrow> find P (xs @ ys) = find P ys"
  by (induction xs) (auto split: if_splits)

text \<open>
  Claim C5. With no product for the collective and tier (tier keys being
  positive), a provider that answers both create calls with ids not yet in the
  tables, and a store that accepts the write, \<open>getOrCreatePlan\<close> issues one
  create-product and one create-plan call and inserts one product and one
  plan; a second call with the same arguments returns that plan and leaves the
  world as it is: no further call, no write.
\<close>

theorem getOrCreatePlan_idempotent:
  assumes noprod: "\<forall>p \<in> set (products st).
        \<not> (p_CollectiveId p = c_id collective \<and> p_TierId p = map_option t_id tier)"
    and tier_key: "\<forall>t. tier = Some t \<longrightarrow> t_id t \<noteq> 0"
    and product_created:
      "gateway env (log st) (createProductRequest collective tier) = Inr jp"
    and plan_created:
      "gateway env (log st @ [Gateway (createProductRequest collective tier)])
         (CreatePlan (j_id jp) intvl amt cur) = Inr jl"
    and fresh: "j_id jp \<notin> set (map p_id (products st))" "j_id jl \<notin> set (map pl_id (plans st))"
    and fk: "\<forall>pl \<in> set (plans st). ProductId pl \<in> set (map p_id (products st))"
    and accepted:
      "\<not> storeRejects env
          (log st @ [Gateway (createProductRequest collective tier),
                     Gateway (CreatePlan (j_id jp) intvl amt cur)])
          (CreatePlanWithProduct
             \<lparr>pl_id = j_id jl, ProductId = j_id jp, pl_amount = amt, pl_currency = cur,
              pl_interval = intvl\<rparr>
             \<lparr>p_id = j_id jp, p_CollectiveId = c_id collective, p_TierId = map_option t_id tier\<rparr>)"
  shows "fst (getOrCreatePlan env collective intvl amt cur tier st)
           = Inr \<lparr>pl_id = j_id jl, ProductId = j_id jp, pl_amount = amt, pl_currency = cur,
                  pl_interval = intvl\<rparr>
       \<and> products (snd (getOrCreatePlan env collective intvl amt cur tier st))
           = products st @ [\<lparr>p_id = j_id jp, p_CollectiveId = c_id collective,
                             p_TierId = map_option t_id tier\<rparr>]
       \<and> plans (snd (getOrCreatePlan env collective intvl amt cur tier st))
           = plans st @ [\<lparr>pl_id = j_id jl, ProductId = j_id jp, pl_amount = amt,
                          pl_currency = cur, pl_interval = intvl\<rparr>]
       \<and> log (snd (getOrCreatePlan env collective intvl amt cur tier st))
           = log st @ [Gateway (createProductRequest collective tier),
                       Gateway (CreatePlan (j_id jp) intvl amt cur),
                       Store (CreatePlanWithProduct
                         \<lparr>pl_id = j_id jl, ProductId = j_id jp, pl_amount = amt,
                          pl_currency = cur, pl_interval = intvl\<rparr>
                         \<lparr>p_id = j_id jp, p_CollectiveId = c_id collective,
                          p_TierId = map_option t_id tier\<rparr>)]
       \<and> getOrCreatePlan env collective intvl amt cur tier
            (snd (getOrCreatePlan env collective intvl amt cur tier st))
           = (Inr \<lparr>pl_id = j_id jl, ProductId = j_id jp, pl_amount = amt, pl_currency = cur,
                   pl_interval = intvl\<rparr>,
              snd (getOrCreatePlan env collective intvl amt cur tier st))"
proof -
  define plan where "plan = \<lparr>pl_id = j_id jl, ProductId = j_id jp, pl_amount = amt,
      pl_currency = cur, pl_interval = intvl\<rparr>"
  define product where "product = \<lparr>p_id = j_id jp, p_CollectiveId = c_id collective,
      p_TierId = map_option t_id tier\<rparr>"
  define key where "key = (case tier of None \<Rightarrow> None
      | Some t \<Rightarrow> if t_id t = 0 then None else Some (t_id t))"
  define st1 where "st1 = st\<lparr>products := products st @ [product], plans := plans st @ [plan],
      log := log st @ [Gateway (createProductRequest collective tier),
                       Gateway (CreatePlan (j_id jp) intvl amt cur),
                       Store (CreatePlanWithProduct plan product)]\<rparr>"
  have key: "key = map_option t_id tier"
    using tier_key by (cases tier) (simp_all add: key_def)
  have none: "find (\<lambda>p. p_CollectiveId p = c_id collective \<and> p_TierId p = key) (products st) = None"
    using noprod by (simp add: find_None_iff key)
  have sel: "pl_id plan = j_id jl" "p_id product = j_id jp"
    by (simp_all add: plan_def product_def)
  have first: "getOrCreatePlan env collective intvl amt cur tier st = (Inr plan, st1)"
    using product_created plan_created fresh accepted none
    by (simp add: sel getOrCreatePlan_def key_def [symmetric] createPaypalProduct_def
        createPaypalPlan_def PaypalPlan_create_def await_def paypalRequest_def storeWrite_def
        resolve_def plan_def [symmetric] product_def [symmetric] st1_def)
  have found: "find (\<lambda>p. p_CollectiveId p = c_id collective \<and> p_TierId p = key) (products st1)
      = Some product"
    using none by (simp add: st1_def find_append_None) (simp add: product_def key)
  have "\<forall>pl \<in> set (plans st). ProductId pl \<noteq> j_id jp"
    using fk fresh(1) by metis
  then have nomatch: "filter (\<lambda>pl. ProductId pl = p_id product \<and> pl_currency pl = cur
        \<and> pl_interval pl = intvl \<and> pl_amount pl = amt) (plans st) = []"
    by (simp add: filter_empty_conv product_def)
  have matched: "filter (\<lambda>pl. ProductId pl = p_id product \<and> pl_currency pl = cur
        \<and> pl_interval pl = intvl \<and> pl_amount pl = amt) (plans st1) = [plan]"
    using nomatch by (simp add: st1_def) (simp add: plan_def product_def)
  have second: "getOrCreatePlan env collective intvl amt cur tier st1 = (Inr plan, st1)"
    using found matched
    by (simp add: getOrCreatePlan_def key_def [symmetric] resolve_def)
  show ?thesis
    unfolding plan_def [symmetric] product_def [symmetric]
    by (simp add: first second) (simp add: st1_def)
qed

theorem getOrCreatePlan_idempotent_witness:
  "fst (getOrCreatePlan ex_env_catalog ex_collective_new ''month'' 500 ''USD'' None ex_world)
     = Inr \<lparr>pl_id = ''P-500'', ProductId = ''PROD-2'', pl_amount = 500, pl_currency = ''USD'',
            pl_interval = ''month''\<rparr>
   \<and> getOrCreatePlan ex_env_catalog ex_collective_new ''month'' 500 ''USD'' None
        (snd (getOrCreatePlan ex_env_catalog ex_collective_new ''month'' 500 ''USD'' None ex_world))
     = (Inr \<lparr>pl_id = ''P-500'', ProductId = ''PROD-2'', pl_amount = 500, pl_currency = ''USD'',
             pl_interval = ''month''\<rparr>,
        snd (getOrCreatePlan ex_env_catalog ex_collective_new ''month'' 500 ''USD'' None ex_world))"
proof -
  define jp where "jp = ex_json\<lparr>j_id := ''PROD-2''\<rparr>"
  define jl where "jl = ex_json\<lparr>j_id := ''P-500''\<rparr>"
  have ids: "j_id jp = ''PROD-2''" "j_id jl = ''P-500''"
    by (simp_all add: jp_def jl_def)
  have "\<forall>p \<in> set (products ex_world).
        \<not> (p_CollectiveId p = c_id ex_collective_new \<and> p_TierId p = map_option t_id None)"
    "\<forall>t. (None :: Tier option) = Some t \<longrightarrow> t_id t \<noteq> 0"
    "gateway ex_env_catalog (log ex_world) (createProductRequest ex_collective_new None) = Inr jp"
    "gateway ex_env_catalog (log ex_world @ [Gateway (createProductRequest ex_collective_new None)])
         (CreatePlan (j_id jp) ''month'' 500 ''USD'') = Inr jl"
    "j_id jp \<notin> set (map p_id (products ex_world))" "j_id jl \<notin> set (map pl_id (plans ex_world))"
    "\<forall>pl \<in> set (plans ex_world). ProductId pl \<in> set (map p_id (products ex_world))"
    "\<not> storeRejects ex_env_catalog
          (log ex_world @ [Gateway (createProductRequest ex_collective_new None),
                     Gateway (CreatePlan (j_id jp) ''month'' 500 ''USD'')])
          (CreatePlanWithProduct
             \<lparr>pl_id = j_id jl, ProductId = j_id jp, pl_amount = 500, pl_currency = ''USD'',
              pl_interval = ''month''\<rparr>
             \<lparr>p_id = j_id jp, p_CollectiveId = c_id ex_collective_new,
              p_TierId = map_option t_id None\<rparr>)"
    by (simp_all add: ex_defs ex_env_catalog_def ex_collective_new_def createProductRequest_def
        getProductTypeAndCategory_def jp_def jl_def)
  from getOrCreatePlan_idempotent [OF this] show ?thesis
    unfolding ids by blast
qed

subsection \<open>Atomicity of the paired writes\<close>

text \<open>
  Claim C6 fails on \<open>updateSubscriptionDetails\<close>: the order and its
  Subscription are written by two separate calls outside any transactional
  unit. When the store rejects the second write, the order carries the new
  amount and the Subscription the old one.
\<close>

theorem updateSubscriptionDetails_partial_write:
  "fst (updateSubscriptionDetails cx_env_subscription_write_rejected ex_order_sub None 2000 ex_world_sub)
     = Inl (StoreError ''write rejected'')
   \<and> map_option totalAmount
        (orders (snd (updateSubscriptionDetails cx_env_subscription_write_rejected ex_order_sub None
           2000 ex_world_sub)) 1) = Some 2000
   \<and> map_option amount
        (subscriptions (snd (updateSubscriptionDetails cx_env_subscription_write_rejected ex_order_sub
           None 2000 ex_world_sub)) 7) = Some 1000"
  by (simp add: updateSubscriptionDetails_def checkSubscriptionDetails_def order_update_def
      orderSubscription_update_def prog_defs ex_defs cx_env_subscription_write_rejected_def)

text \<open>
  The swap of the payment method does run its two writes in one unit: when it
  raises, orders and subscriptions are those before the call.
\<close>

lemma updatePaymentMethodForSubscription_atomic:
  assumes "fst (updatePaymentMethodForSubscription env adm ext ord prev new st) = Inl e"
  shows "orders (snd (updatePaymentMethodForSubscription env adm ext ord prev new st)) = orders st
       \<and> subscriptions (snd (updatePaymentMethodForSubscription env adm ext ord prev new st))
           = subscriptions st"
  using assms
  by (auto simp: updatePaymentMethodForSubscription_def transaction_def reject_def Let_def
      split: if_splits prod.splits sum.splits)

end
